theory Spec2Isabelle
  imports Complex_Main
begin

section \<open>Python values and exceptions\<close>

text \<open>
  The nightly scoring job of \<^verbatim>\<open>src/job.py\<close> (class \<^verbatim>\<open>ScoringJob\<close>) is embedded
  function by function. Exceptions are values: a computation that may raise returns
  \<open>pyerror + 'a\<close>, with \<open>Inl\<close> for the exception.
\<close>

datatype pyerror = KeyError | TypeError | AttributeError | StoreError

text \<open>
  A Python float is a finite number, one of the two infinities, or NaN
  (\<^verbatim>\<open>float('nan')\<close>, \<^verbatim>\<open>float('inf')\<close> parse). Addition and comparison treat the
  special values as IEEE 754 does: NaN absorbs every sum and compares false with
  everything, and the sum of the two infinities is NaN. A sum of two finite numbers is
  exact here; the rounding of a finite sum is not part of the model.
\<close>

datatype pyfloat = Finite real | PosInf | NegInf | NaN

fun fl_add :: "pyfloat \<Rightarrow> pyfloat \<Rightarrow> pyfloat" where
  "fl_add NaN y = NaN"
| "fl_add x NaN = NaN"
| "fl_add (Finite a) (Finite b) = Finite (a + b)"
| "fl_add PosInf NegInf = NaN"
| "fl_add NegInf PosInf = NaN"
| "fl_add PosInf y = PosInf"
| "fl_add x PosInf = PosInf"
| "fl_add NegInf y = NegInf"
| "fl_add x NegInf = NegInf"

text \<open>\<^verbatim>\<open>x <= y\<close> and \<^verbatim>\<open>x < y\<close> on floats.\<close>

fun fl_le :: "pyfloat \<Rightarrow> pyfloat \<Rightarrow> bool" where
  "fl_le NaN y = False"
| "fl_le x NaN = False"
| "fl_le (Finite a) (Finite b) = (a \<le> b)"
| "fl_le NegInf y = True"
| "fl_le x PosInf = True"
| "fl_le x y = False"

fun fl_lt :: "pyfloat \<Rightarrow> pyfloat \<Rightarrow> bool" where
  "fl_lt NaN y = False"
| "fl_lt x NaN = False"
| "fl_lt (Finite a) (Finite b) = (a < b)"
| "fl_lt NegInf NegInf = False"
| "fl_lt PosInf PosInf = False"
| "fl_lt NegInf y = True"
| "fl_lt x PosInf = True"
| "fl_lt x y = False"

text \<open>\<^verbatim>\<open>min(x, y)\<close> keeps its first argument unless the second is smaller.\<close>

definition py_min :: "pyfloat \<Rightarrow> pyfloat \<Rightarrow> pyfloat" where
  "py_min x y = (if fl_lt y x then y else x)"

text \<open>The values a field of a lead can hold: SQL NULL (Python \<^verbatim>\<open>None\<close>), a string or a number.\<close>

datatype pyval = PNone | PStr string | PNum pyfloat

type_synonym lead = "string \<Rightarrow> pyval option"

type_synonym config = "string \<Rightarrow> pyfloat option"

definition and_then :: "pyerror + 'a \<Rightarrow> ('a \<Rightarrow> pyerror + 'b) \<Rightarrow> pyerror + 'b" where
  "and_then r f = (case r of Inl e \<Rightarrow> Inl e | Inr v \<Rightarrow> f v)"

text \<open>\<^verbatim>\<open>config[k]\<close>: a missing key raises KeyError.\<close>

definition subscript :: "config \<Rightarrow> string \<Rightarrow> pyerror + pyfloat" where
  "subscript config k = (case config k of None \<Rightarrow> Inl KeyError | Some v \<Rightarrow> Inr v)"

text \<open>\<^verbatim>\<open>lead.get(k, dflt)\<close>: the default is used only when the key is absent; a key
  that is present with the value \<^verbatim>\<open>None\<close> yields \<^verbatim>\<open>None\<close>.\<close>

definition dict_get :: "lead \<Rightarrow> string \<Rightarrow> pyval \<Rightarrow> pyval" where
  "dict_get lead k dflt = (case lead k of None \<Rightarrow> dflt | Some v \<Rightarrow> v)"

text \<open>\<^verbatim>\<open>a >= t\<close> with a float on the right: only a number compares.\<close>

definition py_ge :: "pyval \<Rightarrow> pyfloat \<Rightarrow> pyerror + bool" where
  "py_ge a t = (case a of PNum x \<Rightarrow> Inr (fl_le t x) | _ \<Rightarrow> Inl TypeError)"

text \<open>\<^verbatim>\<open>len(v)\<close>: defined on strings; \<^verbatim>\<open>None\<close> and numbers raise TypeError.\<close>

definition py_len :: "pyval \<Rightarrow> pyerror + nat" where
  "py_len v = (case v of PStr s \<Rightarrow> Inr (length s) | _ \<Rightarrow> Inl TypeError)"

text \<open>Truthiness, as \<^verbatim>\<open>if lead.get('email'):\<close> reads it.\<close>

definition truthy :: "pyval \<Rightarrow> bool" where
  "truthy v = (case v of PNone \<Rightarrow> False | PStr s \<Rightarrow> s \<noteq> [] | PNum x \<Rightarrow> x \<noteq> Finite 0)"

text \<open>A string method called on a value: \<^verbatim>\<open>None\<close> and numbers have no
  \<^verbatim>\<open>startswith\<close> or \<^verbatim>\<open>lower\<close> and raise AttributeError.\<close>

definition as_str :: "pyval \<Rightarrow> pyerror + string" where
  "as_str v = (case v of PStr s \<Rightarrow> Inr s | _ \<Rightarrow> Inl AttributeError)"

definition startswith :: "string \<Rightarrow> string \<Rightarrow> bool" where
  "startswith s p = (take (length p) s = p)"

text \<open>\<^verbatim>\<open>str.lower\<close> on the ASCII letters; every other character is kept.\<close>

definition lower_char :: "char \<Rightarrow> char" where
  "lower_char c =
     (let n = (of_char c :: nat) in if 65 \<le> n \<and> n \<le> 90 then char_of (n + 32) else c)"

definition lower :: "string \<Rightarrow> string" where
  "lower s = map lower_char s"

text \<open>\<^verbatim>\<open>d in s\<close>: \<open>d\<close> occurs in \<open>s\<close> as a contiguous substring.\<close>

fun py_in :: "string \<Rightarrow> string \<Rightarrow> bool" where
  "py_in d [] = (d = [])"
| "py_in d (c # cs) = (startswith (c # cs) d \<or> py_in d cs)"

section \<open>The scoring function\<close>

text \<open>\<^verbatim>\<open>calculate_lead_score\<close>, one definition per factor, each taking the score so far.\<close>

definition audit_factor :: "lead \<Rightarrow> config \<Rightarrow> pyfloat \<Rightarrow> pyerror + pyfloat" where
  "audit_factor lead config score =
     (let audit_score = dict_get lead ''audit_score'' (PNum (Finite 0)) in
      and_then (subscript config ''audit_score_threshold'') (\<lambda>threshold.
      and_then (py_ge audit_score threshold) (\<lambda>reached.
        if reached
        then and_then (subscript config ''audit_score_points'') (\<lambda>p. Inr (fl_add score p))
        else Inr score)))"

definition employee_factor :: "lead \<Rightarrow> config \<Rightarrow> pyfloat \<Rightarrow> pyerror + pyfloat" where
  "employee_factor lead config score =
     and_then (py_len (dict_get lead ''company'' (PStr []))) (\<lambda>n.
       let estimated_employees = Finite (max 1 (real n * 10)) in
       and_then (subscript config ''employee_count_min'') (\<lambda>lo.
         if fl_le lo estimated_employees
         then and_then (subscript config ''employee_count_max'') (\<lambda>hi.
           if fl_le estimated_employees hi
           then and_then (subscript config ''employee_count_points'') (\<lambda>p. Inr (fl_add score p))
           else Inr score)
         else Inr score))"

definition email_factor :: "lead \<Rightarrow> config \<Rightarrow> pyfloat \<Rightarrow> pyerror + pyfloat" where
  "email_factor lead config score =
     (if truthy (dict_get lead ''email'' PNone)
      then and_then (subscript config ''email_exists_points'') (\<lambda>p. Inr (fl_add score p))
      else Inr score)"

definition ssl_factor :: "lead \<Rightarrow> config \<Rightarrow> pyfloat \<Rightarrow> pyerror + pyfloat" where
  "ssl_factor lead config score =
     and_then (as_str (dict_get lead ''website'' (PStr []))) (\<lambda>w.
       if startswith w ''https://''
       then and_then (subscript config ''website_ssl_points'') (\<lambda>p. Inr (fl_add score p))
       else Inr score)"

definition domain_factor :: "lead \<Rightarrow> config \<Rightarrow> pyfloat \<Rightarrow> pyerror + pyfloat" where
  "domain_factor lead config score =
     and_then (as_str (dict_get lead ''website'' (PStr []))) (\<lambda>w.
       let website = lower w in
       if list_ex (\<lambda>domain. py_in domain website) [''.com'', ''.org'', ''.net'']
       then and_then (subscript config ''company_size_bonus'') (\<lambda>p. Inr (fl_add score p))
       else Inr score)"

definition calculate_lead_score :: "lead \<Rightarrow> config \<Rightarrow> pyerror + pyfloat" where
  "calculate_lead_score lead config =
     and_then (audit_factor lead config (Finite 0)) (\<lambda>s1.
     and_then (employee_factor lead config s1) (\<lambda>s2.
     and_then (email_factor lead config s2) (\<lambda>s3.
     and_then (ssl_factor lead config s3) (\<lambda>s4.
     and_then (domain_factor lead config s4) (\<lambda>s5.
       Inr (py_min s5 (Finite 100)))))))"

section \<open>The default configuration\<close>

definition default_config :: config where
  "default_config = map_of
     [(''audit_score_weight'', Finite 0.4),
      (''audit_score_threshold'', Finite 50),
      (''audit_score_points'', Finite 10),
      (''employee_count_min'', Finite 1),
      (''employee_count_max'', Finite 250),
      (''employee_count_points'', Finite 5),
      (''email_exists_points'', Finite 2),
      (''website_ssl_points'', Finite 3),
      (''company_size_bonus'', Finite 8)]"

section \<open>The store\<close>

text \<open>
  The tables of the relational store that the job reads and writes. Dates are day
  numbers and timestamps are seconds, both integers. A row of \<^verbatim>\<open>scoring_jobs\<close>:
\<close>

datatype status = running | completed | failed

record job_record =
  rec_id :: int
  job_date :: int
  status :: status
  leads_processed :: int
  start_time :: int
  end_time :: "int option"

text \<open>A row of \<^verbatim>\<open>raw_leads\<close> as the query of \<^verbatim>\<open>update_lead_scores\<close> selects it;
  \<open>None\<close> is SQL NULL.\<close>

record raw_lead =
  lead_id :: int
  email :: "string option"
  company :: "string option"
  website :: "string option"
  correlation_id :: "string option"

text \<open>
  The store as one connection sees it. \<open>committed\<close> holds the durable rows of
  \<^verbatim>\<open>scoring_jobs\<close>, \<open>working\<close> the rows as the open transaction sees them;
  \<^verbatim>\<open>commit\<close> makes the working rows durable, \<^verbatim>\<open>rollback\<close> and closing the
  connection discard them. \<open>next_id\<close> is the sequence behind the \<^verbatim>\<open>id\<close> column.
  \<open>raw_leads\<close> lists the leads in the order the query returns them.
\<close>

record db =
  committed :: "job_record list"
  working :: "job_record list"
  next_id :: int
  config_table :: "(string \<times> string option) list"
  raw_leads :: "raw_lead list"

definition commit :: "db \<Rightarrow> db" where
  "commit d = d\<lparr>committed := working d\<rparr>"

definition rollback :: "db \<Rightarrow> db" where
  "rollback d = d\<lparr>working := committed d\<rparr>"

definition close :: "db \<Rightarrow> db" where
  "close d = rollback d"

text \<open>The attributes of \<^verbatim>\<open>ScoringJob\<close> that the methods read and write:
  \<^verbatim>\<open>self.job_date\<close> and \<^verbatim>\<open>self.job_id\<close>.\<close>

record scoring_job =
  self_job_date :: int
  job_id :: "int option"

section \<open>Loading the configuration\<close>

text \<open>\<^verbatim>\<open>float(row['value'])\<close>. Python's parser of float literals is a parameter
  \<open>pf\<close> (\<open>None\<close> is ValueError); a NULL value raises TypeError. Both are caught
  by the inner handler of the loader.\<close>

definition py_float :: "(string \<Rightarrow> pyfloat option) \<Rightarrow> string option \<Rightarrow> pyfloat option" where
  "py_float pf v = (case v of None \<Rightarrow> None | Some s \<Rightarrow> pf s)"

text \<open>\<^verbatim>\<open>key LIKE 'scoring_%'\<close>: the letters \<^verbatim>\<open>scoring\<close>, any one character, then
  anything.\<close>

definition like_scoring :: "string \<Rightarrow> bool" where
  "like_scoring k = (take 7 k = ''scoring'' \<and> 8 \<le> length k)"

definition select_config :: "db \<Rightarrow> (string \<times> string option) list" where
  "select_config d = filter (\<lambda>row. like_scoring (fst row)) (config_table d)"

text \<open>The loop over \<^verbatim>\<open>config_rows\<close>: a row that parses is stored under the row's own
  key, a row that does not is skipped.\<close>

fun overlay ::
  "(string \<Rightarrow> pyfloat option) \<Rightarrow> (string \<times> string option) list \<Rightarrow> config \<Rightarrow> config" where
  "overlay pf [] config = config"
| "overlay pf (row # rows) config =
     (case py_float pf (snd row) of
        None \<Rightarrow> overlay pf rows config
      | Some x \<Rightarrow> overlay pf rows (config(fst row \<mapsto> x)))"

text \<open>\<^verbatim>\<open>get_scoring_config\<close>. \<open>fault\<close> says that one of its store accesses (cursor,
  execute, fetchall, closing the cursor) raises: the outer handler then returns the
  defaults.\<close>

definition get_scoring_config :: "(string \<Rightarrow> pyfloat option) \<Rightarrow> bool \<Rightarrow> db \<Rightarrow> config" where
  "get_scoring_config pf fault d =
     (if fault then default_config else overlay pf (select_config d) default_config)"

text \<open>A fragment of \<^verbatim>\<open>float\<close> for running examples: a non-empty string of ASCII
  digits is the number it writes; every other string is rejected here.\<close>

definition digit_of :: "char \<Rightarrow> nat option" where
  "digit_of c =
     (let n = (of_char c :: nat) in if 48 \<le> n \<and> n \<le> 57 then Some (n - 48) else None)"

fun digits_acc :: "nat \<Rightarrow> string \<Rightarrow> nat option" where
  "digits_acc acc [] = Some acc"
| "digits_acc acc (c # cs) =
     (case digit_of c of None \<Rightarrow> None | Some k \<Rightarrow> digits_acc (10 * acc + k) cs)"

definition digits_float :: "string \<Rightarrow> pyfloat option" where
  "digits_float s =
     (if s = [] then None else map_option (\<lambda>n. Finite (real n)) (digits_acc 0 s))"

section \<open>The job lock\<close>

text \<open>
  Store accesses can raise. Each method takes the access that faults, if any
  (\<open>None\<close>: no fault); a faulting statement has no effect on the rows.
\<close>

datatype lock_access =
  LockCursor | LockReclaim | LockCommit | LockSelectRunning | LockSelectCompleted | LockClose

definition stale :: "int \<Rightarrow> int \<Rightarrow> job_record \<Rightarrow> bool" where
  "stale now d j = (job_date j = d \<and> status j = running \<and> start_time j < now - 4 * 3600)"

definition reclaim :: "int \<Rightarrow> int \<Rightarrow> job_record \<Rightarrow> job_record" where
  "reclaim now d j = (if stale now d j then j\<lparr>status := failed\<rparr> else j)"

definition running_on :: "int \<Rightarrow> job_record list \<Rightarrow> job_record list" where
  "running_on d rows = filter (\<lambda>j. job_date j = d \<and> status j = running) rows"

definition completed_on :: "int \<Rightarrow> job_record list \<Rightarrow> job_record list" where
  "completed_on d rows = filter (\<lambda>j. job_date j = d \<and> status j = completed) rows"

text \<open>The body of the \<^verbatim>\<open>try\<close> of \<^verbatim>\<open>check_job_lock\<close>: it raises or returns a
  boolean. The commit runs only when the UPDATE changed a row; the second SELECT only
  when the first found nothing (its result is logged, not used). Leaving the
  \<^verbatim>\<open>with\<close> block closes the cursor on every path.\<close>

definition check_job_lock_try ::
  "lock_access option \<Rightarrow> int \<Rightarrow> scoring_job \<Rightarrow> db \<Rightarrow> (pyerror + bool) \<times> db" where
  "check_job_lock_try fault now self d =
     (if fault = Some LockCursor \<or> fault = Some LockReclaim then (Inl StoreError, d)
      else
        let stale_jobs_updated = length (filter (stale now (self_job_date self)) (working d));
            d1 = d\<lparr>working := map (reclaim now (self_job_date self)) (working d)\<rparr>
        in
        if 0 < stale_jobs_updated \<and> fault = Some LockCommit then (Inl StoreError, d1)
        else
          let d2 = (if 0 < stale_jobs_updated then commit d1 else d1) in
          if fault = Some LockSelectRunning then (Inl StoreError, d2)
          else if running_on (self_job_date self) (working d2) \<noteq> []
          then (if fault = Some LockClose then Inl StoreError else Inr False, d2)
          else if fault = Some LockSelectCompleted then (Inl StoreError, d2)
          else (if fault = Some LockClose then Inl StoreError else Inr True, d2))"

text \<open>\<^verbatim>\<open>check_job_lock\<close>: the handler turns every exception into \<^verbatim>\<open>False\<close>.\<close>

definition check_job_lock ::
  "lock_access option \<Rightarrow> int \<Rightarrow> scoring_job \<Rightarrow> db \<Rightarrow> bool \<times> db" where
  "check_job_lock fault now self d =
     (case check_job_lock_try fault now self d of
        (Inl e, d') \<Rightarrow> (False, d')
      | (Inr granted, d') \<Rightarrow> (granted, d'))"

section \<open>The job record\<close>

datatype create_access = CreateCursor | CreateInsert | CreateFetch | CreateCommit | CreateClose

text \<open>\<^verbatim>\<open>create_job_record\<close>: every exception is followed by a rollback and
  \<^verbatim>\<open>False\<close>. \<^verbatim>\<open>self.job_id\<close> is assigned before the commit.\<close>

definition create_job_record ::
  "create_access option \<Rightarrow> int \<Rightarrow> scoring_job \<Rightarrow> db \<Rightarrow> bool \<times> scoring_job \<times> db" where
  "create_job_record fault now self d =
     (if fault = Some CreateCursor \<or> fault = Some CreateInsert then (False, self, rollback d)
      else
        let row = \<lparr>rec_id = next_id d, job_date = self_job_date self, status = running,
                   leads_processed = 0, start_time = now, end_time = None\<rparr>;
            d1 = d\<lparr>working := working d @ [row], next_id := next_id d + 1\<rparr>
        in
        if fault = Some CreateFetch then (False, self, rollback d1)
        else
          let self1 = self\<lparr>job_id := Some (next_id d)\<rparr> in
          if fault = Some CreateCommit then (False, self1, rollback d1)
          else if fault = Some CreateClose then (False, self1, rollback (commit d1))
          else (True, self1, commit d1))"

section \<open>Scoring all leads\<close>

text \<open>\<^verbatim>\<open>dict(lead)\<close> followed by \<^verbatim>\<open>lead_dict['audit_score'] = 0\<close>.\<close>

definition column :: "string option \<Rightarrow> pyval" where
  "column v = (case v of None \<Rightarrow> PNone | Some s \<Rightarrow> PStr s)"

definition lead_dict :: "raw_lead \<Rightarrow> lead" where
  "lead_dict r =
     (let row = map_of
        [(''id'', PNum (Finite (real_of_int (lead_id r)))),
         (''email'', column (email r)),
         (''company'', column (company r)),
         (''website'', column (website r)),
         (''correlation_id'', column (correlation_id r))]
      in row(''audit_score'' \<mapsto> PNum (Finite 0)))"

text \<open>
  The \<^verbatim>\<open>for lead in leads\<close> loop. Its state is \<^verbatim>\<open>leads_processed\<close> and the
  scores written to the log, one line \<^verbatim>\<open>Lead <email>: scored <n> points\<close> per
  scored lead. An exception of \<^verbatim>\<open>calculate_lead_score\<close> is caught inside the loop:
  the lead is neither logged nor counted, and the loop goes on.
\<close>

fun score_leads ::
  "config \<Rightarrow> raw_lead list \<Rightarrow> nat \<times> (string option \<times> pyfloat) list
     \<Rightarrow> nat \<times> (string option \<times> pyfloat) list" where
  "score_leads config [] acc = acc"
| "score_leads config (l # ls) acc =
     (case calculate_lead_score (lead_dict l) config of
        Inl e \<Rightarrow> score_leads config ls acc
      | Inr new_score \<Rightarrow>
          score_leads config ls (fst acc + 1, snd acc @ [(email l, new_score)]))"

datatype scoring_access = ScoringCursor | ScoringSelect | ScoringFetch | ScoringClose

text \<open>\<^verbatim>\<open>update_lead_scores\<close>. The cursor, the SELECT and \<^verbatim>\<open>fetchall\<close> all precede
  the loop; the loop itself makes no store access, and the \<^verbatim>\<open>with\<close> block closes the
  cursor when it is left. Any exception outside the loop is followed by a rollback and is
  raised again. The local \<^verbatim>\<open>leads_processed\<close> is lost with the exception; the model
  keeps the value it had at that moment beside the error, so that it can be compared with
  what \<^verbatim>\<open>run\<close> records.\<close>

definition update_lead_scores ::
  "(string \<Rightarrow> pyfloat option) \<Rightarrow> bool \<Rightarrow> scoring_access option \<Rightarrow> db
     \<Rightarrow> (pyerror \<times> nat + nat) \<times> db" where
  "update_lead_scores pf config_fault fault d =
     (let config = get_scoring_config pf config_fault d in
      if fault = Some ScoringCursor \<or> fault = Some ScoringSelect \<or> fault = Some ScoringFetch
      then (Inl (StoreError, 0), rollback d)
      else
        let leads_processed = fst (score_leads config (raw_leads d) (0, [])) in
        if fault = Some ScoringClose then (Inl (StoreError, leads_processed), rollback d)
        else (Inr leads_processed, d))"

section \<open>Retention and finalization\<close>

datatype cleanup_access = CleanupCursor | CleanupDelete | CleanupCommit | CleanupClose

text \<open>\<^verbatim>\<open>cleanup_old_jobs\<close>: exceptions are logged only, nothing is rolled back.\<close>

definition cleanup_old_jobs :: "cleanup_access option \<Rightarrow> int \<Rightarrow> db \<Rightarrow> db" where
  "cleanup_old_jobs fault current_date d =
     (if fault = Some CleanupCursor \<or> fault = Some CleanupDelete then d
      else
        let d1 = d\<lparr>working := filter (\<lambda>j. \<not> job_date j < current_date - 30) (working d)\<rparr> in
        if fault = Some CleanupCommit then d1 else commit d1)"

datatype complete_access = CompleteCursor | CompleteUpdate | CompleteCommit | CompleteClose

text \<open>\<^verbatim>\<open>'failed' if error else 'completed'\<close>: \<^verbatim>\<open>None\<close> and the empty string are
  false.\<close>

definition final_status :: "string option \<Rightarrow> status" where
  "final_status error = (if error = None \<or> error = Some [] then completed else failed)"

definition finalize :: "int \<Rightarrow> status \<Rightarrow> int \<Rightarrow> int \<Rightarrow> job_record \<Rightarrow> job_record" where
  "finalize jid st n now j =
     (if rec_id j = jid then j\<lparr>status := st, leads_processed := n, end_time := Some now\<rparr> else j)"

text \<open>\<^verbatim>\<open>complete_job\<close>. \<^verbatim>\<open>if not self.job_id: return\<close> leaves at once when the id
  is \<^verbatim>\<open>None\<close> (or 0). Exceptions are logged only.\<close>

definition complete_job ::
  "complete_access option \<Rightarrow> int \<Rightarrow> int \<Rightarrow> string option \<Rightarrow> scoring_job \<Rightarrow> db \<Rightarrow> db" where
  "complete_job fault now n error self d =
     (case job_id self of
        None \<Rightarrow> d
      | Some jid \<Rightarrow>
          if jid = 0 then d
          else if fault = Some CompleteCursor \<or> fault = Some CompleteUpdate then d
          else
            let d1 = d\<lparr>working := map (finalize jid (final_status error) n now) (working d)\<rparr> in
            if fault = Some CompleteCommit then d1 else commit d1)"

section \<open>The run\<close>

text \<open>\<^verbatim>\<open>connect_db\<close>: three attempts; \<open>ok i\<close> says that attempt \<open>i\<close> connects.\<close>

definition connect_db :: "(nat \<Rightarrow> bool) \<Rightarrow> bool" where
  "connect_db ok = list_ex ok [0, 1, 2]"

text \<open>What one run meets from outside: the connection attempts, the faulting access of
  each method, the clocks, and Python's float parser.\<close>

record env =
  connect_ok :: "nat \<Rightarrow> bool"
  lock_fault :: "lock_access option"
  create_fault :: "create_access option"
  config_fault :: bool
  scoring_fault :: "scoring_access option"
  cleanup_fault :: "cleanup_access option"
  complete_fault :: "complete_access option"
  lock_now :: int
  create_now :: int
  complete_now :: int
  current_date :: int
  parse_float :: "string \<Rightarrow> pyfloat option"

text \<open>\<^verbatim>\<open>run\<close>, with the steps that follow the creation of the record in
  \<open>score_and_finalize\<close>. The handler of \<^verbatim>\<open>run\<close> passes its own
  \<^verbatim>\<open>leads_processed\<close>, which is still 0 when \<^verbatim>\<open>update_lead_scores\<close> raised. The
  \<^verbatim>\<open>finally\<close> clause closes the connection once one was made. The result is the
  boolean that \<^verbatim>\<open>main\<close> turns into the exit code (0 for \<^verbatim>\<open>True\<close>, 1 for
  \<^verbatim>\<open>False\<close>).\<close>

definition score_and_finalize :: "env \<Rightarrow> scoring_job \<Rightarrow> db \<Rightarrow> bool \<times> db" where
  "score_and_finalize e self d =
     (let (r, d3) = update_lead_scores (parse_float e) (config_fault e) (scoring_fault e) d in
      case r of
        Inl err \<Rightarrow>
          (False,
           complete_job (complete_fault e) (complete_now e) 0 (Some ''Scoring job failed'') self d3)
      | Inr n \<Rightarrow>
          (let d4 = cleanup_old_jobs (cleanup_fault e) (current_date e) d3 in
           (True, complete_job (complete_fault e) (complete_now e) (int n) None self d4)))"

definition run :: "env \<Rightarrow> scoring_job \<Rightarrow> db \<Rightarrow> bool \<times> scoring_job \<times> db" where
  "run e self d =
     (if \<not> connect_db (connect_ok e) then (False, self, d)
      else
        let (granted, d1) = check_job_lock (lock_fault e) (lock_now e) self d in
        if \<not> granted then (False, self, close d1)
        else
          let (created, self1, d2) = create_job_record (create_fault e) (create_now e) self d1 in
          if \<not> created then (False, self1, close d2)
          else
            let (success, d5) = score_and_finalize e self1 d2 in
            (success, self1, close d5))"


text \<open>At most one running record per date, checked row by row.\<close>

definition one_running :: "job_record list \<Rightarrow> bool" where
  "one_running rows = list_all (\<lambda>j. length (running_on (job_date j) rows) \<le> 1) rows"

definition one_running_db :: "db \<Rightarrow> bool" where
  "one_running_db d = (one_running (working d) \<and> one_running (committed d))"

text \<open>
  Two runs of the job on the same store, started so close together that both make their
  lock check before either creates its record: check of \<open>a\<close>, check of \<open>b\<close>, creation by
  \<open>a\<close>, creation by \<open>b\<close>, each creation only after a granted check as in \<^verbatim>\<open>run\<close>.
  Every step ends committed, so the rows each connection sees are the durable ones. The
  result tells which run created its record, and the store.
\<close>

definition both_check_then_both_create ::
  "int \<Rightarrow> scoring_job \<Rightarrow> scoring_job \<Rightarrow> db \<Rightarrow> bool \<times> bool \<times> db" where
  "both_check_then_both_create now a b d =
     (let (granted_a, d1) = check_job_lock None now a d;
          (granted_b, d2) = check_job_lock None now b d1;
          (created_a, a1, d3) =
            (if granted_a then create_job_record None now a d2 else (False, a, d2));
          (created_b, b1, d4) =
            (if granted_b then create_job_record None now b d3 else (False, b, d3))
      in (created_a, created_b, d4))"

text \<open>The five parameters that \<^verbatim>\<open>calculate_lead_score\<close> adds to the score.\<close>

definition point_keys :: "string list" where
  "point_keys = [''audit_score_points'', ''employee_count_points'', ''email_exists_points'',
                 ''website_ssl_points'', ''company_size_bonus'']"

definition nonneg_points :: "config \<Rightarrow> bool" where
  "nonneg_points config =
     list_all (\<lambda>k. case config k of None \<Rightarrow> True | Some v \<Rightarrow> fl_le (Finite 0) v) point_keys"

text \<open>A lead is scored when \<^verbatim>\<open>calculate_lead_score\<close> returns for it.\<close>

definition scored :: "config \<Rightarrow> raw_lead \<Rightarrow> bool" where
  "scored config l = (\<not> isl (calculate_lead_score (lead_dict l) config))"

text \<open>A run in which no store access faults.\<close>

definition no_store_fault :: "env \<Rightarrow> bool" where
  "no_store_fault e =
     (connect_db (connect_ok e) \<and> lock_fault e = None \<and> create_fault e = None \<and>
      \<not> config_fault e \<and> scoring_fault e = None \<and> cleanup_fault e = None \<and>
      complete_fault e = None)"

section \<open>Example data\<close>

definition https_lead :: lead where
  "https_lead = map_of
     [(''email'', PStr []), (''company'', PStr []),
      (''website'', PStr ''https://example.com''), (''audit_score'', PNum (Finite 0))]"

definition https_row :: raw_lead where
  "https_row = \<lparr>lead_id = 1, email = None, company = Some [],
                 website = Some ''https://example.com'', correlation_id = None\<rparr>"

definition email_lead :: lead where
  "email_lead = map_of [(''email'', PStr ''a@b.c'')]"

definition good_row :: "int \<Rightarrow> raw_lead" where
  "good_row i = \<lparr>lead_id = i, email = Some ''a@b.c'', company = Some ''Acme'',
                  website = Some ''https://acme.com'', correlation_id = None\<rparr>"

text \<open>A lead whose company is NULL: \<^verbatim>\<open>len(None)\<close> raises TypeError.\<close>

definition null_company_row :: "int \<Rightarrow> raw_lead" where
  "null_company_row i = (good_row i)\<lparr>company := None\<rparr>"

definition empty_db :: db where
  "empty_db = \<lparr>committed = [], working = [], next_id = 1, config_table = [], raw_leads = []\<rparr>"

definition quiet_env :: env where
  "quiet_env = \<lparr>connect_ok = (\<lambda>i. True), lock_fault = None, create_fault = None,
     config_fault = False, scoring_fault = None, cleanup_fault = None, complete_fault = None,
     lock_now = 20000, create_now = 20001, complete_now = 20002, current_date = 5,
     parse_float = digits_float\<rparr>"

definition today_job :: scoring_job where
  "today_job = \<lparr>self_job_date = 5, job_id = None\<rparr>"

text \<open>A running record of day 5 that started at the given second.\<close>

definition running_since :: "int \<Rightarrow> job_record" where
  "running_since t = \<lparr>rec_id = 1, job_date = 5, status = running, leads_processed = 0,
                        start_time = t, end_time = None\<rparr>"

definition jobs_db :: "job_record list \<Rightarrow> db" where
  "jobs_db rows = \<lparr>committed = rows, working = rows, next_id = 2, config_table = [],
                    raw_leads = []\<rparr>"

text \<open>Five leads, the third with a NULL company; and two leads that both score.\<close>

definition five_leads_db :: db where
  "five_leads_db = empty_db\<lparr>raw_leads :=
     [good_row 1, good_row 2, null_company_row 3, good_row 4, good_row 5]\<rparr>"



section \<open>Properties of the scoring function\<close>

lemmas score_defs = calculate_lead_score_def and_then_def audit_factor_def
  employee_factor_def email_factor_def ssl_factor_def domain_factor_def subscript_def
  dict_get_def py_ge_def py_len_def truthy_def as_str_def startswith_def lower_def
  lower_char_def py_min_def

lemma fl_add_nonneg:
  "fl_le (Finite 0) a \<Longrightarrow> fl_le (Finite 0) b \<Longrightarrow> fl_le (Finite 0) (fl_add a b)"
  by (cases a; cases b) simp_all

lemma py_min_upper: "py_min s (Finite 100) \<noteq> NaN \<Longrightarrow> fl_le (py_min s (Finite 100)) (Finite 100)"
  by (cases s) (simp_all add: py_min_def)

lemma py_min_nonneg:
  "fl_le (Finite 0) s \<Longrightarrow>
   fl_le (Finite 0) (py_min s (Finite 100)) \<and> fl_le (py_min s (Finite 100)) (Finite 100)"
  by (cases s) (simp_all add: py_min_def)

lemma subscript_nonneg:
  "nonneg_points config \<Longrightarrow> subscript config k = Inr v \<Longrightarrow> k \<in> set point_keys \<Longrightarrow>
   fl_le (Finite 0) v"
  by (auto simp: nonneg_points_def list_all_iff subscript_def split: option.splits)

lemma audit_factor_nonneg:
  "nonneg_points config \<Longrightarrow> fl_le (Finite 0) s \<Longrightarrow> audit_factor lead config s = Inr s' \<Longrightarrow>
   fl_le (Finite 0) s'"
  unfolding audit_factor_def Let_def and_then_def
  by (auto simp: point_keys_def split: sum.splits if_splits
      intro!: fl_add_nonneg dest: subscript_nonneg)

lemma employee_factor_nonneg:
  "nonneg_points config \<Longrightarrow> fl_le (Finite 0) s \<Longrightarrow> employee_factor lead config s = Inr s' \<Longrightarrow>
   fl_le (Finite 0) s'"
  unfolding employee_factor_def Let_def and_then_def
  by (auto simp: point_keys_def split: sum.splits if_splits
      intro!: fl_add_nonneg dest: subscript_nonneg)

lemma email_factor_nonneg:
  "nonneg_points config \<Longrightarrow> fl_le (Finite 0) s \<Longrightarrow> email_factor lead config s = Inr s' \<Longrightarrow>
   fl_le (Finite 0) s'"
  unfolding email_factor_def and_then_def
  by (auto simp: point_keys_def split: sum.splits if_splits
      intro!: fl_add_nonneg dest: subscript_nonneg)

lemma ssl_factor_nonneg:
  "nonneg_points config \<Longrightarrow> fl_le (Finite 0) s \<Longrightarrow> ssl_factor lead config s = Inr s' \<Longrightarrow>
   fl_le (Finite 0) s'"
  unfolding ssl_factor_def and_then_def
  by (auto simp: point_keys_def split: sum.splits if_splits
      intro!: fl_add_nonneg dest: subscript_nonneg)

lemma domain_factor_nonneg:
  "nonneg_points config \<Longrightarrow> fl_le (Finite 0) s \<Longrightarrow> domain_factor lead config s = Inr s' \<Longrightarrow>
   fl_le (Finite 0) s'"
  unfolding domain_factor_def Let_def and_then_def
  by (auto simp: point_keys_def split: sum.splits if_splits
      intro!: fl_add_nonneg dest: subscript_nonneg)

lemma calculate_lead_score_cases:
  assumes "calculate_lead_score lead config = Inr s"
  obtains s1 s2 s3 s4 s5 where
    "audit_factor lead config (Finite 0) = Inr s1" "employee_factor lead config s1 = Inr s2"
    "email_factor lead config s2 = Inr s3" "ssl_factor lead config s3 = Inr s4"
    "domain_factor lead config s4 = Inr s5" "s = py_min s5 (Finite 100)"
  using assms unfolding calculate_lead_score_def and_then_def
  by (auto split: sum.splits)

lemma nonneg_points_default: "nonneg_points default_config"
  by (simp add: nonneg_points_def point_keys_def default_config_def)

text \<open>
  C1 (as amended). The lead with website \<^verbatim>\<open>https://example.com\<close> and every other field
  empty scores 16 under the default configuration, not 11: the estimated employee count
  of an empty company name is \<open>max 1 0 = 1\<close>, which lies in \<open>[1, 250]\<close>, so
  \<open>employee_count_points\<close> (5) is added to \<open>website_ssl_points\<close> (3) and
  \<open>company_size_bonus\<close> (8). This holds with the other fields empty strings, with
  their keys absent, and for the row as \<^verbatim>\<open>update_lead_scores\<close> builds it.
\<close>

theorem calculate_lead_score_https_example:
  "calculate_lead_score https_lead default_config = Inr (Finite (5 + 3 + 8)) \<and>
   calculate_lead_score (map_of [(''website'', PStr ''https://example.com'')]) default_config
     = Inr (Finite 16) \<and>
   calculate_lead_score (lead_dict https_row) default_config = Inr (Finite 16)"
  by (simp add: score_defs default_config_def https_lead_def https_row_def lead_dict_def
      column_def)

theorem calculate_lead_score_https_example_witness:
  "calculate_lead_score https_lead default_config = Inr (Finite 16)"
  using calculate_lead_score_https_example by simp

text \<open>The score of that lead is not 11.\<close>

theorem calculate_lead_score_https_counterexample:
  "calculate_lead_score https_lead default_config \<noteq> Inr (Finite 11)"
  by (simp add: score_defs default_config_def https_lead_def)

text \<open>
  C4 (as amended). A score that \<^verbatim>\<open>calculate_lead_score\<close> returns is at most 100 unless
  it is NaN, for every lead and every configuration, infinite and NaN values included;
  \<^verbatim>\<open>min(score, 100)\<close> lets a NaN through. When the five point parameters of the
  configuration are at least 0 (which no NaN is), the score is not NaN and lies between 0
  and 100. There is no clamp at 0.
\<close>

theorem calculate_lead_score_bounds:
  assumes "calculate_lead_score lead config = Inr s"
  shows "(s \<noteq> NaN \<longrightarrow> fl_le s (Finite 100)) \<and>
         (nonneg_points config \<longrightarrow> fl_le (Finite 0) s \<and> fl_le s (Finite 100))"
proof -
  from assms obtain s1 s2 s3 s4 s5 where f:
    "audit_factor lead config (Finite 0) = Inr s1" "employee_factor lead config s1 = Inr s2"
    "email_factor lead config s2 = Inr s3" "ssl_factor lead config s3 = Inr s4"
    "domain_factor lead config s4 = Inr s5" and s: "s = py_min s5 (Finite 100)"
    by (rule calculate_lead_score_cases)
  have upper: "fl_le s (Finite 100)" if "s \<noteq> NaN"
    using that unfolding s by (rule py_min_upper)
  have both: "fl_le (Finite 0) s \<and> fl_le s (Finite 100)" if nn: "nonneg_points config"
  proof -
    have z: "fl_le (Finite 0) (Finite 0)" by simp
    have n1: "fl_le (Finite 0) s1" using nn z f(1) by (rule audit_factor_nonneg)
    have n2: "fl_le (Finite 0) s2" using nn n1 f(2) by (rule employee_factor_nonneg)
    have n3: "fl_le (Finite 0) s3" using nn n2 f(3) by (rule email_factor_nonneg)
    have n4: "fl_le (Finite 0) s4" using nn n3 f(4) by (rule ssl_factor_nonneg)
    have n5: "fl_le (Finite 0) s5" using nn n4 f(5) by (rule domain_factor_nonneg)
    show ?thesis unfolding s using n5 by (rule py_min_nonneg)
  qed
  from upper both show ?thesis by blast
qed

text \<open>A lead with an email scores 7 under the defaults; with an infinite
  \<open>company_size_bonus\<close> a lead with a \<^verbatim>\<open>.com\<close> website scores 100.\<close>

theorem calculate_lead_score_bounds_witness:
  "calculate_lead_score email_lead default_config = Inr (Finite 7) \<and>
   Finite 7 \<noteq> NaN \<and> nonneg_points default_config \<and>
   fl_le (Finite 0) (Finite 7) \<and> fl_le (Finite 7) (Finite 100) \<and>
   calculate_lead_score https_lead (default_config(''company_size_bonus'' \<mapsto> PosInf))
     = Inr (Finite 100)"
proof -
  have e: "calculate_lead_score email_lead default_config = Inr (Finite 7)"
    by (simp add: score_defs default_config_def email_lead_def)
  have i: "calculate_lead_score https_lead (default_config(''company_size_bonus'' \<mapsto> PosInf))
     = Inr (Finite 100)"
    by (simp add: score_defs default_config_def https_lead_def)
  from calculate_lead_score_bounds[OF e] e i nonneg_points_default show ?thesis by simp
qed

text \<open>A configuration with a negative point value gives a negative score: with
  \<open>email_exists_points = -20\<close> a lead that has an email scores \<open>5 - 20 = -15\<close>. With
  \<open>email_exists_points = NaN\<close> the score is NaN, which is not at most 100.\<close>

theorem calculate_lead_score_negative_counterexample:
  "calculate_lead_score email_lead (default_config(''email_exists_points'' \<mapsto> Finite (- 20)))
     = Inr (Finite (- 15)) \<and> \<not> fl_le (Finite 0) (Finite (- 15)) \<and>
   calculate_lead_score email_lead (default_config(''email_exists_points'' \<mapsto> NaN))
     = Inr NaN \<and> \<not> fl_le NaN (Finite 100)"
  by (simp add: score_defs default_config_def email_lead_def)

section \<open>Properties of the configuration loader\<close>

lemma overlay_skip:
  "py_float pf v = None \<Longrightarrow>
   overlay pf (pre @ (k, v) # post) config = overlay pf (pre @ post) config"
  by (induction pre arbitrary: config) (auto split: option.splits)

lemma overlay_other_key:
  "k \<notin> fst ` set rows \<Longrightarrow> overlay pf rows config k = config k"
  by (induction rows arbitrary: config) (auto split: option.splits)

lemma select_config_keys:
  "k \<in> fst ` set (select_config d) \<Longrightarrow> like_scoring k"
  by (auto simp: select_config_def)

lemma default_config_dom:
  "dom default_config = {''audit_score_weight'', ''audit_score_threshold'', ''audit_score_points'',
     ''employee_count_min'', ''employee_count_max'', ''employee_count_points'',
     ''email_exists_points'', ''website_ssl_points'', ''company_size_bonus''}"
  unfolding default_config_def dom_map_of_conv_image_fst by simp

lemma default_keys_not_like_scoring:
  "k \<in> dom default_config \<Longrightarrow> \<not> like_scoring k"
  unfolding default_config_dom by (elim insertE emptyE) (simp_all add: like_scoring_def)

lemma loaded_config_default_keys:
  assumes "k \<in> dom default_config"
  shows "get_scoring_config pf fault d k = default_config k"
proof -
  have "k \<notin> fst ` set (select_config d)"
    using default_keys_not_like_scoring[OF assms] select_config_keys[of k d] by blast
  then show ?thesis
    by (simp add: get_scoring_config_def overlay_other_key)
qed

lemma subscript_cong:
  "c k = c' k \<Longrightarrow> subscript c k = subscript c' k"
  by (simp add: subscript_def)

lemma calculate_lead_score_cong:
  assumes "\<And>k. k \<in> dom default_config \<Longrightarrow> c k = c' k"
  shows "calculate_lead_score lead c = calculate_lead_score lead c'"
proof -
  have s: "subscript c k = subscript c' k" if "k \<in> dom default_config" for k
    using assms[OF that] by (rule subscript_cong)
  have a: "audit_factor lead c = audit_factor lead c'"
    unfolding audit_factor_def by (simp add: s default_config_dom cong: if_cong)
  have b: "employee_factor lead c = employee_factor lead c'"
    unfolding employee_factor_def by (simp add: s default_config_dom cong: if_cong)
  have e: "email_factor lead c = email_factor lead c'"
    unfolding email_factor_def by (simp add: s default_config_dom cong: if_cong)
  have f: "ssl_factor lead c = ssl_factor lead c'"
    unfolding ssl_factor_def by (simp add: s default_config_dom cong: if_cong)
  have g: "domain_factor lead c = domain_factor lead c'"
    unfolding domain_factor_def by (simp add: s default_config_dom cong: if_cong)
  show ?thesis unfolding calculate_lead_score_def by (simp add: a b e f g)
qed

text \<open>
  C3 (the code does not do what the claim says). A row selected by
  \<^verbatim>\<open>key LIKE 'scoring_%'\<close> is stored under its own key, which starts with
  \<^verbatim>\<open>scoring\<close>; the scoring function reads the unprefixed keys
  (\<^verbatim>\<open>email_exists_points\<close>, ...). So whatever rows are persisted, the loaded
  configuration holds the default at every scoring parameter, and every lead scores as
  under the defaults: no override is ever seen.
\<close>

theorem loaded_config_scores_as_default:
  "(k \<in> dom default_config \<longrightarrow> get_scoring_config pf fault d k = default_config k) \<and>
   calculate_lead_score lead (get_scoring_config pf fault d)
     = calculate_lead_score lead default_config"
  using loaded_config_default_keys calculate_lead_score_cong[of "get_scoring_config pf fault d"]
  by blast

text \<open>The row \<^verbatim>\<open>scoring_email_exists_points = "7"\<close> parses, yet a lead with an email
  still gets the default 2 points for it (score 7 = 5 + 2, not 12).\<close>

theorem loaded_config_scores_as_default_witness:
  "''email_exists_points'' \<in> dom default_config \<and>
   py_float digits_float (Some ''7'') = Some (Finite 7) \<and>
   get_scoring_config digits_float False
     (empty_db\<lparr>config_table := [(''scoring_email_exists_points'', Some ''7'')]\<rparr>)
     ''email_exists_points'' = Some (Finite 2) \<and>
   calculate_lead_score email_lead
     (get_scoring_config digits_float False
       (empty_db\<lparr>config_table := [(''scoring_email_exists_points'', Some ''7'')]\<rparr>)) = Inr (Finite 7)"
proof -
  have e: "calculate_lead_score email_lead default_config = Inr (Finite 7)"
    by (simp add: score_defs default_config_def email_lead_def)
  have k: "''email_exists_points'' \<in> dom default_config"
    by (simp add: default_config_dom)
  have p: "py_float digits_float (Some ''7'') = Some (Finite 7)"
    by (simp add: py_float_def digits_float_def digit_of_def)
  have v: "default_config ''email_exists_points'' = Some (Finite 2)"
    by (simp add: default_config_def)
  from loaded_config_scores_as_default[of "''email_exists_points''" digits_float False
      "empty_db\<lparr>config_table := [(''scoring_email_exists_points'', Some ''7'')]\<rparr>" email_lead]
    e k p v
  show ?thesis by simp
qed

text \<open>
  C9. A persisted row whose value does not parse as a float (or is NULL) is skipped and
  nothing else: the loaded configuration is the one loaded from the table without that
  row. When no other row has the key, the configuration holds at that key what the
  defaults hold. The load itself cannot fail: \<^verbatim>\<open>get_scoring_config\<close> returns a
  configuration on every path.
\<close>

theorem get_scoring_config_skips_malformed:
  assumes "config_table d = pre @ (k, v) # post" and "py_float pf v = None"
  shows "get_scoring_config pf fault d
           = get_scoring_config pf fault (d\<lparr>config_table := pre @ post\<rparr>) \<and>
         (k \<notin> fst ` set (pre @ post) \<longrightarrow>
            get_scoring_config pf fault d k = default_config k)"
proof -
  have sel: "select_config d
      = filter (\<lambda>row. like_scoring (fst row)) pre @
        filter (\<lambda>row. like_scoring (fst row)) ((k, v) # post)"
    by (simp add: select_config_def assms(1))
  have sel': "select_config (d\<lparr>config_table := pre @ post\<rparr>)
      = filter (\<lambda>row. like_scoring (fst row)) pre @
        filter (\<lambda>row. like_scoring (fst row)) post"
    by (simp add: select_config_def)
  have eq: "overlay pf (select_config d) default_config
      = overlay pf (select_config (d\<lparr>config_table := pre @ post\<rparr>)) default_config"
  proof (cases "like_scoring k")
    case True
    then have "select_config d
      = filter (\<lambda>row. like_scoring (fst row)) pre @
        (k, v) # filter (\<lambda>row. like_scoring (fst row)) post"
      by (simp add: sel)
    then show ?thesis
      unfolding sel' by (simp only: overlay_skip[OF assms(2)])
  next
    case False
    then have "select_config d = select_config (d\<lparr>config_table := pre @ post\<rparr>)"
      by (simp add: sel sel')
    then show ?thesis by simp
  qed
  have first: "get_scoring_config pf fault d
      = get_scoring_config pf fault (d\<lparr>config_table := pre @ post\<rparr>)"
    by (simp add: get_scoring_config_def eq)
  have second: "get_scoring_config pf fault d k = default_config k"
    if "k \<notin> fst ` set (pre @ post)"
  proof -
    have "k \<notin> fst ` set (select_config (d\<lparr>config_table := pre @ post\<rparr>))"
      using that by (auto simp: select_config_def)
    then show ?thesis
      unfolding first by (simp add: get_scoring_config_def overlay_other_key)
  qed
  from first second show ?thesis by blast
qed

text \<open>The rows \<^verbatim>\<open>scoring_x = "12"\<close> and \<^verbatim>\<open>scoring_audit_score_points = "abc"\<close>: the second is
  skipped, the first is loaded, and \<^verbatim>\<open>audit_score_points\<close> keeps its default 10.\<close>

theorem get_scoring_config_skips_malformed_witness:
  "py_float digits_float (Some ''abc'') = None \<and>
   get_scoring_config digits_float False
     (empty_db\<lparr>config_table :=
        [(''scoring_x'', Some ''12''), (''scoring_audit_score_points'', Some ''abc'')]\<rparr>)
   = get_scoring_config digits_float False
       (empty_db\<lparr>config_table := [(''scoring_x'', Some ''12'')]\<rparr>) \<and>
   get_scoring_config digits_float False
     (empty_db\<lparr>config_table :=
        [(''scoring_x'', Some ''12''), (''scoring_audit_score_points'', Some ''abc'')]\<rparr>)
     ''scoring_audit_score_points'' = default_config ''scoring_audit_score_points'' \<and>
   get_scoring_config digits_float False
       (empty_db\<lparr>config_table := [(''scoring_x'', Some ''12'')]\<rparr>) ''scoring_x'' = Some (Finite 12) \<and>
   get_scoring_config digits_float False
       (empty_db\<lparr>config_table := [(''scoring_x'', Some ''12'')]\<rparr>) ''audit_score_points''
     = Some (Finite 10)"
proof -
  let ?d = "empty_db\<lparr>config_table :=
        [(''scoring_x'', Some ''12''), (''scoring_audit_score_points'', Some ''abc'')]\<rparr>"
  have t: "config_table ?d
      = [(''scoring_x'', Some ''12'')] @ (''scoring_audit_score_points'', Some ''abc'') # []"
    by simp
  have p: "py_float digits_float (Some ''abc'') = None"
    by (simp add: py_float_def digits_float_def digit_of_def)
  have x: "get_scoring_config digits_float False
       (empty_db\<lparr>config_table := [(''scoring_x'', Some ''12'')]\<rparr>) ''scoring_x'' = Some (Finite 12)"
    by (simp add: get_scoring_config_def select_config_def like_scoring_def py_float_def
        digits_float_def digit_of_def)
  have a: "get_scoring_config digits_float False
       (empty_db\<lparr>config_table := [(''scoring_x'', Some ''12'')]\<rparr>) ''audit_score_points''
     = Some (Finite 10)"
    by (simp add: get_scoring_config_def select_config_def like_scoring_def py_float_def
        digits_float_def digit_of_def default_config_def)
  note skip = get_scoring_config_skips_malformed[OF t p, of False]
  have absent: "''scoring_audit_score_points'' \<notin> fst ` set ([(''scoring_x'', Some ''12'')] @ [])"
    by simp
  from skip[THEN conjunct1] skip[THEN conjunct2, THEN mp, OF absent] p x a
  show ?thesis by simp
qed

section \<open>Properties of the job lock\<close>

lemma check_job_lock_try_no_fault:
  "check_job_lock_try None now self d =
     (let d1 = d\<lparr>working := map (reclaim now (self_job_date self)) (working d)\<rparr>;
          d2 = (if \<exists>j\<in>set (working d). stale now (self_job_date self) j then commit d1 else d1)
      in (Inr (running_on (self_job_date self) (working d2) = []), d2))"
  by (simp add: check_job_lock_try_def Let_def filter_empty_conv commit_def)

text \<open>
  C5. Without a store fault, \<^verbatim>\<open>check_job_lock\<close> first turns every running record of the
  job date that started more than 4 hours (14400 seconds) before now into a failed one,
  commits that change when a record was changed, and then grants exactly when no running
  record of the job date remains.
\<close>

theorem check_job_lock_reclaims_then_decides:
  assumes "check_job_lock None now self d = (granted, d')"
  shows "working d' =
           map (\<lambda>j. if job_date j = self_job_date self \<and> status j = running \<and>
                        start_time j < now - 4 * 3600
                     then j\<lparr>status := failed\<rparr> else j) (working d) \<and>
         (granted \<longleftrightarrow>
            (\<forall>j\<in>set (working d'). \<not> (job_date j = self_job_date self \<and> status j = running))) \<and>
         ((\<exists>j\<in>set (working d). job_date j = self_job_date self \<and> status j = running \<and>
              start_time j < now - 4 * 3600) \<longrightarrow> committed d' = working d')"
proof -
  let ?d1 = "d\<lparr>working := map (reclaim now (self_job_date self)) (working d)\<rparr>"
  let ?d2 = "if \<exists>j\<in>set (working d). stale now (self_job_date self) j then commit ?d1 else ?d1"
  from assms have g: "granted = (running_on (self_job_date self) (working ?d2) = [])"
    and d': "d' = ?d2"
    by (auto simp add: check_job_lock_def check_job_lock_try_no_fault Let_def)
  have w: "working d' = map (reclaim now (self_job_date self)) (working d)"
    by (simp add: d' commit_def)
  have r: "reclaim now (self_job_date self) =
      (\<lambda>j. if job_date j = self_job_date self \<and> status j = running \<and>
               start_time j < now - 4 * 3600
            then j\<lparr>status := failed\<rparr> else j)"
    by (rule ext) (simp add: reclaim_def stale_def)
  have first: "working d' =
      map (\<lambda>j. if job_date j = self_job_date self \<and> status j = running \<and>
                  start_time j < now - 4 * 3600
                then j\<lparr>status := failed\<rparr> else j) (working d)"
    using w by (simp only: r)
  have second: "granted \<longleftrightarrow>
      (\<forall>j\<in>set (working d'). \<not> (job_date j = self_job_date self \<and> status j = running))"
    unfolding g d'[symmetric] by (simp add: running_on_def filter_empty_conv)
  have third: "committed d' = working d'"
    if "\<exists>j\<in>set (working d). job_date j = self_job_date self \<and> status j = running \<and>
          start_time j < now - 4 * 3600"
  proof -
    from that have "\<exists>j\<in>set (working d). stale now (self_job_date self) j"
      by (simp add: stale_def)
    then show ?thesis by (simp add: d' commit_def)
  qed
  from first second third show ?thesis by blast
qed

text \<open>At second 20000, a single running record of today started 5 hours before (second
  2000) is marked failed, durably, and the lock is granted; one started 1 hour before
  (second 16400) is kept and the lock is denied.\<close>

theorem check_job_lock_reclaims_then_decides_witness:
  "check_job_lock None 20000 today_job (jobs_db [running_since 2000])
     = (True, jobs_db [(running_since 2000)\<lparr>status := failed\<rparr>]) \<and>
   committed (jobs_db [(running_since 2000)\<lparr>status := failed\<rparr>])
     = working (jobs_db [(running_since 2000)\<lparr>status := failed\<rparr>]) \<and>
   check_job_lock None 20000 today_job (jobs_db [running_since 16400])
     = (False, jobs_db [running_since 16400])"
proof -
  have a: "check_job_lock None 20000 today_job (jobs_db [running_since 2000])
     = (True, jobs_db [(running_since 2000)\<lparr>status := failed\<rparr>])"
    by (simp add: check_job_lock_def check_job_lock_try_def Let_def jobs_db_def
        running_since_def today_job_def stale_def reclaim_def running_on_def commit_def)
  have b: "check_job_lock None 20000 today_job (jobs_db [running_since 16400])
     = (False, jobs_db [running_since 16400])"
    by (simp add: check_job_lock_def check_job_lock_try_def Let_def jobs_db_def
        running_since_def today_job_def stale_def reclaim_def running_on_def commit_def)
  have s: "\<exists>j\<in>set (working (jobs_db [running_since 2000])).
      job_date j = self_job_date today_job \<and> status j = running \<and> start_time j < 20000 - 4 * 3600"
    by (simp add: jobs_db_def running_since_def today_job_def)
  from check_job_lock_reclaims_then_decides[OF a, THEN conjunct2, THEN conjunct2, THEN mp, OF s]
    a b
  show ?thesis by simp
qed

text \<open>
  C7. Whenever a store access of the lock check raises, \<^verbatim>\<open>check_job_lock\<close> denies. In
  terms of the access that is set to fault: every access of the check denies when it
  faults; the commit is the one access that is not always reached (it runs only after a
  stale record was changed), and it denies whenever it is reached.
\<close>

theorem check_job_lock_fails_closed:
  "(fst (check_job_lock_try fault now self d) = Inl err \<longrightarrow>
      \<not> fst (check_job_lock fault now self d)) \<and>
   ((p = LockCommit \<longrightarrow> (\<exists>j\<in>set (working d). stale now (self_job_date self) j)) \<longrightarrow>
      \<not> fst (check_job_lock (Some p) now self d))"
proof -
  have first: "\<not> fst (check_job_lock fault now self d)"
    if "fst (check_job_lock_try fault now self d) = Inl err"
    using that by (cases "check_job_lock_try fault now self d") (simp add: check_job_lock_def)
  have second: "\<not> fst (check_job_lock (Some p) now self d)"
    if "p = LockCommit \<longrightarrow> (\<exists>j\<in>set (working d). stale now (self_job_date self) j)"
    using that
    by (cases p)
      (simp_all add: check_job_lock_def check_job_lock_try_def Let_def filter_empty_conv)
  from first second show ?thesis by blast
qed

text \<open>On the empty store the check grants; with a fault at the first SELECT it raises
  and denies.\<close>

theorem check_job_lock_fails_closed_witness:
  "fst (check_job_lock None 20000 today_job empty_db) \<and>
   fst (check_job_lock_try (Some LockSelectRunning) 20000 today_job empty_db) = Inl StoreError \<and>
   \<not> fst (check_job_lock (Some LockSelectRunning) 20000 today_job empty_db)"
proof -
  have g: "fst (check_job_lock None 20000 today_job empty_db)"
    by (simp add: check_job_lock_def check_job_lock_try_def Let_def empty_db_def
        running_on_def)
  have r: "fst (check_job_lock_try (Some LockSelectRunning) 20000 today_job empty_db)
      = Inl StoreError"
    by (simp add: check_job_lock_try_def Let_def empty_db_def)
  from check_job_lock_fails_closed[of "Some LockSelectRunning" 20000 today_job empty_db
      StoreError LockSelectRunning, THEN conjunct1, THEN mp, OF r] g r
  show ?thesis by simp
qed

section \<open>Properties of finalization\<close>

text \<open>
  C10. When \<^verbatim>\<open>self.job_id\<close> is \<^verbatim>\<open>None\<close>, \<^verbatim>\<open>complete_job\<close> returns before any store
  access: the store, durable and working rows alike, is what it was.
\<close>

theorem complete_job_without_job_id:
  "complete_job fault now n error (self\<lparr>job_id := None\<rparr>) d = d"
  by (simp add: complete_job_def)

theorem complete_job_without_job_id_witness:
  "complete_job None 20002 3 None today_job (jobs_db [running_since 16400])
     = jobs_db [running_since 16400]"
  using complete_job_without_job_id[of None 20002 3 None today_job "jobs_db [running_since 16400]"]
  by (simp add: today_job_def)

section \<open>At most one running record per date\<close>

lemma one_running_iff:
  "one_running rows \<longleftrightarrow> (\<forall>day. length (running_on day rows) \<le> 1)"
proof
  assume h: "one_running rows"
  show "\<forall>day. length (running_on day rows) \<le> 1"
  proof
    fix day
    show "length (running_on day rows) \<le> 1"
    proof (cases "running_on day rows")
      case Nil
      then show ?thesis by simp
    next
      case (Cons j js)
      then have "j \<in> set (running_on day rows)" by simp
      then have "j \<in> set rows" and "job_date j = day" by (simp_all add: running_on_def)
      with h show ?thesis by (auto simp: one_running_def list_all_iff)
    qed
  qed
next
  assume "\<forall>day. length (running_on day rows) \<le> 1"
  then show "one_running rows" by (simp add: one_running_def list_all_iff)
qed

lemma running_on_map_le:
  assumes "\<And>j. job_date (f j) = job_date j"
    and "\<And>j. status (f j) = running \<Longrightarrow> status j = running"
  shows "length (running_on day (map f rows)) \<le> length (running_on day rows)"
  using assms by (induction rows) (auto simp: running_on_def)

lemma running_on_filter_le:
  "length (running_on day (filter P rows)) \<le> length (running_on day rows)"
  by (induction rows) (auto simp: running_on_def)

lemma one_running_map:
  assumes "one_running rows" and "\<And>j. job_date (f j) = job_date j"
    and "\<And>j. status (f j) = running \<Longrightarrow> status j = running"
  shows "one_running (map f rows)"
  unfolding one_running_iff
proof
  fix day
  have "length (running_on day (map f rows)) \<le> length (running_on day rows)"
    using assms(2,3) by (rule running_on_map_le)
  also have "\<dots> \<le> 1" using assms(1) by (simp add: one_running_iff)
  finally show "length (running_on day (map f rows)) \<le> 1" .
qed

lemma one_running_filter:
  assumes "one_running rows"
  shows "one_running (filter P rows)"
  unfolding one_running_iff
proof
  fix day
  have "length (running_on day (filter P rows)) \<le> length (running_on day rows)"
    by (rule running_on_filter_le)
  also have "\<dots> \<le> 1" using assms by (simp add: one_running_iff)
  finally show "length (running_on day (filter P rows)) \<le> 1" .
qed

lemma one_running_append:
  assumes "one_running rows" and "running_on (job_date r) rows = []"
  shows "one_running (rows @ [r])"
  unfolding one_running_iff
proof
  fix day
  show "length (running_on day (rows @ [r])) \<le> 1"
  proof (cases "day = job_date r")
    case True
    with assms(2) show ?thesis by (simp add: running_on_def)
  next
    case False
    then have "running_on day (rows @ [r]) = running_on day rows"
      by (auto simp: running_on_def)
    with assms(1) show ?thesis by (simp add: one_running_iff)
  qed
qed

lemma one_running_reclaim:
  "one_running rows \<Longrightarrow> one_running (map (reclaim now day) rows)"
  by (rule one_running_map) (auto simp: reclaim_def split: if_splits)

lemma one_running_finalize:
  "one_running rows \<Longrightarrow> one_running (map (finalize jid (final_status error) n now) rows)"
  by (rule one_running_map) (auto simp: finalize_def final_status_def split: if_splits)

lemma check_job_lock_try_keeps:
  "one_running_db d \<Longrightarrow> one_running_db (snd (check_job_lock_try fault now self d))"
  by (simp add: check_job_lock_try_def Let_def one_running_db_def commit_def
      one_running_reclaim)

lemma check_job_lock_keeps:
  "one_running_db d \<Longrightarrow> one_running_db (snd (check_job_lock fault now self d))"
  using check_job_lock_try_keeps[of d fault now self]
  by (cases "check_job_lock_try fault now self d")
     (auto simp: check_job_lock_def split: sum.splits)

lemma check_job_lock_granted_none_running:
  assumes "fst (check_job_lock fault now self d)"
  shows "running_on (self_job_date self) (working (snd (check_job_lock fault now self d))) = []"
proof -
  obtain r d' where t: "check_job_lock_try fault now self d = (r, d')"
    by (cases "check_job_lock_try fault now self d")
  with assms have r: "r = Inr True"
    by (cases r) (simp_all add: check_job_lock_def)
  from t r have "running_on (self_job_date self) (working d') = []"
    by (auto simp: check_job_lock_try_def Let_def split: if_splits)
  with t r show ?thesis by (simp add: check_job_lock_def)
qed

lemma create_job_record_keeps:
  assumes "one_running_db d" and "running_on (self_job_date self) (working d) = []"
  shows "one_running_db (snd (snd (create_job_record fault now self d)))"
proof -
  let ?row = "\<lparr>rec_id = next_id d, job_date = self_job_date self, status = running,
               leads_processed = 0, start_time = now, end_time = None\<rparr>"
  have "one_running (working d @ [?row])"
    using assms by (intro one_running_append) (simp_all add: one_running_db_def)
  with assms(1) show ?thesis
    by (simp add: create_job_record_def Let_def one_running_db_def commit_def rollback_def)
qed

lemma update_lead_scores_keeps:
  "one_running_db d \<Longrightarrow> one_running_db (snd (update_lead_scores pf cf fault d))"
  by (simp add: update_lead_scores_def Let_def one_running_db_def rollback_def)

lemma cleanup_old_jobs_keeps:
  "one_running_db d \<Longrightarrow> one_running_db (cleanup_old_jobs fault today d)"
  by (simp add: cleanup_old_jobs_def Let_def one_running_db_def commit_def one_running_filter)

lemma complete_job_keeps:
  "one_running_db d \<Longrightarrow> one_running_db (complete_job fault now n error self d)"
  by (simp add: complete_job_def Let_def one_running_db_def commit_def one_running_finalize
      split: option.splits)

lemma close_keeps: "one_running_db d \<Longrightarrow> one_running_db (close d)"
  by (simp add: close_def rollback_def one_running_db_def)

lemma score_and_finalize_keeps:
  assumes "one_running_db d"
  shows "one_running_db (snd (score_and_finalize e self d))"
proof -
  obtain r d3 where u:
    "update_lead_scores (parse_float e) (config_fault e) (scoring_fault e) d = (r, d3)"
    by (cases "update_lead_scores (parse_float e) (config_fault e) (scoring_fault e) d")
  have "one_running_db d3"
    using update_lead_scores_keeps[OF assms, of "parse_float e" "config_fault e" "scoring_fault e"] u
    by simp
  then show ?thesis
    by (cases r)
       (simp_all add: score_and_finalize_def u Let_def complete_job_keeps cleanup_old_jobs_keeps)
qed

lemma run_keeps:
  assumes "one_running_db d"
  shows "one_running_db (snd (snd (run e self d)))"
proof (cases "connect_db (connect_ok e)")
  case False
  with assms show ?thesis by (simp add: run_def)
next
  case True
  obtain granted d1 where c: "check_job_lock (lock_fault e) (lock_now e) self d = (granted, d1)"
    by (cases "check_job_lock (lock_fault e) (lock_now e) self d")
  have i1: "one_running_db d1"
    using check_job_lock_keeps[OF assms, of "lock_fault e" "lock_now e" self] c by simp
  show ?thesis
  proof (cases granted)
    case False
    with True c i1 show ?thesis by (simp add: run_def close_keeps)
  next
    case g: True
    have none: "running_on (self_job_date self) (working d1) = []"
      using check_job_lock_granted_none_running[of "lock_fault e" "lock_now e" self d] c g
      by simp
    obtain created self1 d2 where
      r: "create_job_record (create_fault e) (create_now e) self d1 = (created, self1, d2)"
      by (cases "create_job_record (create_fault e) (create_now e) self d1")
    have i2: "one_running_db d2"
      using create_job_record_keeps[OF i1 none, of "create_fault e" "create_now e"] r by simp
    obtain success d5 where f: "score_and_finalize e self1 d2 = (success, d5)"
      by (cases "score_and_finalize e self1 d2")
    have i5: "one_running_db d5"
      using score_and_finalize_keeps[OF i2, of e self1] f by simp
    from True c g r f i2 i5 show ?thesis
      by (simp add: run_def close_keeps)
  qed
qed

text \<open>
  Within one run the property is kept. On a store in which every date has at most one
  running record, among the durable rows and among the rows of the open transaction: the
  lock check, the scoring of the leads, the retention cleanup and the finalization each
  keep that property; the creation of the record keeps it when it follows a lock check
  that granted, as it does in \<^verbatim>\<open>run\<close>; and so does a whole run.
\<close>

theorem single_run_keeps_one_running:
  assumes "one_running_db d"
  shows "one_running_db (snd (check_job_lock f1 t1 self d)) \<and>
         (fst (check_job_lock f1 t1 self d) \<longrightarrow>
            one_running_db
              (snd (snd (create_job_record f2 t2 self (snd (check_job_lock f1 t1 self d)))))) \<and>
         one_running_db (snd (update_lead_scores pf cf f3 d)) \<and>
         one_running_db (cleanup_old_jobs f4 today d) \<and>
         one_running_db (complete_job f5 t5 n error self' d) \<and>
         one_running_db (snd (snd (run e self d)))"
proof -
  have "one_running_db
      (snd (snd (create_job_record f2 t2 self (snd (check_job_lock f1 t1 self d)))))"
    if "fst (check_job_lock f1 t1 self d)"
    using check_job_lock_keeps[OF assms] check_job_lock_granted_none_running[OF that]
    by (rule create_job_record_keeps)
  then show ?thesis
    using assms
    by (simp add: check_job_lock_keeps update_lead_scores_keeps cleanup_old_jobs_keeps
        complete_job_keeps run_keeps)
qed

text \<open>A run on the store whose only record is a stale running one of today: the check
  reclaims it and grants, the new record is then the only running one, and the run ends
  with none.\<close>

theorem single_run_keeps_one_running_witness:
  "one_running_db (jobs_db [running_since 2000]) \<and>
   fst (check_job_lock None 20000 today_job (jobs_db [running_since 2000])) \<and>
   one_running_db (snd (check_job_lock None 20000 today_job (jobs_db [running_since 2000]))) \<and>
   one_running_db
     (snd (snd (create_job_record None 20001 today_job
        (snd (check_job_lock None 20000 today_job (jobs_db [running_since 2000])))))) \<and>
   one_running_db (snd (snd (run quiet_env today_job (jobs_db [running_since 2000]))))"
proof -
  have i: "one_running_db (jobs_db [running_since 2000])"
    by (simp add: one_running_db_def one_running_def running_on_def jobs_db_def
        running_since_def)
  have g: "fst (check_job_lock None 20000 today_job (jobs_db [running_since 2000]))"
    by (simp add: check_job_lock_def check_job_lock_try_def Let_def jobs_db_def
        running_since_def today_job_def stale_def reclaim_def running_on_def commit_def)
  from single_run_keeps_one_running[OF i, of None 20000 today_job None 20001 _ _ _ _ _ _ _ _ _ _
      quiet_env] i g
  show ?thesis by simp
qed

text \<open>
  C6 (the code does not do what the claim says). The lock is a check followed, in a
  separate step, by the insertion of the running record; nothing makes the two atomic and
  the table has no uniqueness constraint. When two runs of the same date both check
  before either inserts, both checks find no running record and grant, both runs insert,
  and the store holds two running records of that date. Here: the empty store, two runs
  of day 5.
\<close>

theorem both_check_then_both_create_two_running:
  "one_running_db empty_db \<and>
   fst (both_check_then_both_create 20000 today_job today_job empty_db) \<and>
   fst (snd (both_check_then_both_create 20000 today_job today_job empty_db)) \<and>
   length (running_on 5
     (committed (snd (snd (both_check_then_both_create 20000 today_job today_job empty_db)))))
     = 2 \<and>
   \<not> one_running_db (snd (snd (both_check_then_both_create 20000 today_job today_job empty_db)))"
  by (simp add: both_check_then_both_create_def check_job_lock_def check_job_lock_try_def
      create_job_record_def Let_def commit_def running_on_def one_running_db_def
      one_running_def empty_db_def today_job_def)

section \<open>Properties of the scoring loop and of the run\<close>

lemma score_leads_acc:
  "score_leads config ls acc =
     (fst acc + length (filter (scored config) ls),
      snd acc @ map (\<lambda>l. (email l, projr (calculate_lead_score (lead_dict l) config)))
                    (filter (scored config) ls))"
proof (induction ls arbitrary: acc)
  case Nil
  show ?case by simp
next
  case (Cons l ls)
  show ?case
  proof (cases "calculate_lead_score (lead_dict l) config")
    case (Inl err)
    then show ?thesis by (simp add: Cons.IH scored_def)
  next
    case (Inr new_score)
    then show ?thesis by (simp add: Cons.IH scored_def)
  qed
qed

lemma update_lead_scores_no_fault:
  "update_lead_scores pf cf None d =
     (Inr (length (filter (scored (get_scoring_config pf cf d)) (raw_leads d))), d)"
  by (simp add: update_lead_scores_def Let_def score_leads_acc)



lemma check_job_lock_tables:
  "raw_leads (snd (check_job_lock fault now self d)) = raw_leads d \<and>
   config_table (snd (check_job_lock fault now self d)) = config_table d \<and>
   next_id (snd (check_job_lock fault now self d)) = next_id d"
  by (simp add: check_job_lock_def check_job_lock_try_def Let_def commit_def
      split: prod.splits sum.splits)

lemma get_scoring_config_table:
  "config_table d' = config_table d \<Longrightarrow>
   get_scoring_config pf cf d' = get_scoring_config pf cf d"
  by (simp add: get_scoring_config_def select_config_def)

text \<open>Under a loaded configuration a row of \<^verbatim>\<open>raw_leads\<close> is scored exactly when its
  company and its website are not NULL; otherwise \<^verbatim>\<open>len(None)\<close> or
  \<^verbatim>\<open>None.startswith\<close> raises.\<close>

lemma scored_iff:
  "scored (get_scoring_config pf cf d) l \<longleftrightarrow> company l \<noteq> None \<and> website l \<noteq> None"
proof -
  have eq: "calculate_lead_score (lead_dict l) (get_scoring_config pf cf d)
      = calculate_lead_score (lead_dict l) default_config"
    by (rule calculate_lead_score_cong) (rule loaded_config_default_keys)
  show ?thesis
    unfolding scored_def eq
    by (cases "company l"; cases "website l"; cases "email l")
       (simp_all add: score_defs default_config_def lead_dict_def column_def Let_def)
qed

lemma create_job_record_no_fault:
  "create_job_record None now self d =
     (True, self\<lparr>job_id := Some (next_id d)\<rparr>,
      commit (d\<lparr>working := working d @
                  [\<lparr>rec_id = next_id d, job_date = self_job_date self, status = running,
                    leads_processed = 0, start_time = now, end_time = None\<rparr>],
                next_id := next_id d + 1\<rparr>))"
  by (simp add: create_job_record_def Let_def)

lemma score_and_finalize_completed:
  assumes "scoring_fault e = None" "cleanup_fault e = None" "complete_fault e = None"
    and "job_id self = Some jid" "jid \<noteq> 0"
  shows "score_and_finalize e self d =
     (True,
      commit (d\<lparr>working :=
        map (finalize jid completed
               (int (length (filter (scored (get_scoring_config (parse_float e) (config_fault e) d))
                       (raw_leads d))))
               (complete_now e))
          (filter (\<lambda>j. \<not> job_date j < current_date e - 30) (working d))\<rparr>))"
  using assms
  by (simp add: score_and_finalize_def update_lead_scores_no_fault cleanup_old_jobs_def
      complete_job_def Let_def commit_def final_status_def)


lemma run_after_lock:
  assumes "connect_db (connect_ok e)" "lock_fault e = None" "create_fault e = None"
    and "check_job_lock None (lock_now e) self d = (True, d1)"
  shows "run e self d =
     (let self1 = self\<lparr>job_id := Some (next_id d1)\<rparr>;
          d2 = commit (d1\<lparr>working := working d1 @
                  [\<lparr>rec_id = next_id d1, job_date = self_job_date self, status = running,
                    leads_processed = 0, start_time = create_now e, end_time = None\<rparr>],
                next_id := next_id d1 + 1\<rparr>);
          r = score_and_finalize e self1 d2
      in (fst r, self1, close (snd r)))"
  using assms
  by (simp add: run_def create_job_record_no_fault Let_def split: prod.splits)

text \<open>
  C8. A lead whose scoring raises is skipped and not counted, and the loop goes on: after
  the loop, \<^verbatim>\<open>leads_processed\<close> is the number of leads for which
  \<^verbatim>\<open>calculate_lead_score\<close> returned, and the log holds the score of each of them, in
  order. In a run without store faults whose lock check grants, the run reports success
  and the job record it created is finalized as completed with that number as
  \<^verbatim>\<open>leads_processed\<close> (the record is of a date that the retention cleanup keeps, and
  its id is not 0).
\<close>

theorem per_lead_faults_are_isolated:
  assumes "no_store_fault e"
    and "fst (check_job_lock None (lock_now e) self d)"
    and "\<not> self_job_date self < current_date e - 30"
    and "next_id d \<noteq> 0"
  shows "score_leads config ls (0, []) =
           (length (filter (scored config) ls),
            map (\<lambda>l. (email l, projr (calculate_lead_score (lead_dict l) config)))
                (filter (scored config) ls)) \<and>
         fst (run e self d) \<and>
         (\<exists>j\<in>set (committed (snd (snd (run e self d)))).
            rec_id j = next_id d \<and> job_date j = self_job_date self \<and> status j = completed \<and>
            leads_processed j =
              int (length (filter (scored (get_scoring_config (parse_float e) False d))
                     (raw_leads d))) \<and>
            end_time j = Some (complete_now e))"
proof -
  let ?n = "int (length (filter (scored (get_scoring_config (parse_float e) False d))
                     (raw_leads d)))"
  let ?keep = "\<lambda>j. \<not> job_date j < current_date e - 30"
  from assms(1) have nf: "connect_db (connect_ok e)" "lock_fault e = None"
    "create_fault e = None" "\<not> config_fault e" "scoring_fault e = None"
    "cleanup_fault e = None" "complete_fault e = None"
    by (simp_all add: no_store_fault_def)
  obtain d1 where c: "check_job_lock None (lock_now e) self d = (True, d1)"
    using assms(2) by (cases "check_job_lock None (lock_now e) self d") simp
  have t: "raw_leads d1 = raw_leads d" "config_table d1 = config_table d" "next_id d1 = next_id d"
    using check_job_lock_tables[of None "lock_now e" self d] c by simp_all
  define row where "row = \<lparr>rec_id = next_id d, job_date = self_job_date self,
    status = running, leads_processed = 0, start_time = create_now e, end_time = None\<rparr>"
  define self1 where "self1 = self\<lparr>job_id := Some (next_id d)\<rparr>"
  define d2 where "d2 = commit (d1\<lparr>working := working d1 @ [row], next_id := next_id d + 1\<rparr>)"
  have d2: "working d2 = working d1 @ [row]" "config_table d2 = config_table d"
    "raw_leads d2 = raw_leads d"
    by (simp_all add: d2_def commit_def t)
  have run_eq: "run e self d =
      (fst (score_and_finalize e self1 d2), self1, close (snd (score_and_finalize e self1 d2)))"
    using run_after_lock[OF nf(1,2,3) c] by (simp add: Let_def d2_def self1_def row_def t)
  have cfg: "get_scoring_config (parse_float e) (config_fault e) d2
      = get_scoring_config (parse_float e) False d"
    using get_scoring_config_table[OF d2(2), of "parse_float e" "config_fault e"] nf(4) by simp
  have jid: "job_id self1 = Some (next_id d)" by (simp add: self1_def)
  have fin: "score_and_finalize e self1 d2 =
     (True, commit (d2\<lparr>working :=
        map (finalize (next_id d) completed ?n (complete_now e)) (filter ?keep (working d2))\<rparr>))"
    using score_and_finalize_completed[OF nf(5,6,7) jid assms(4), of d2]
    by (simp only: cfg d2(3))
  have com: "committed (snd (snd (run e self d)))
      = map (finalize (next_id d) completed ?n (complete_now e)) (filter ?keep (working d2))"
    by (simp add: run_eq fin close_def rollback_def commit_def)
  have kept: "row \<in> set (filter ?keep (working d2))"
    using assms(3) by (simp add: d2(1) row_def)
  have "finalize (next_id d) completed ?n (complete_now e) row
      \<in> set (committed (snd (snd (run e self d))))"
    unfolding com set_map using kept by (rule imageI)
  then have third: "\<exists>j\<in>set (committed (snd (snd (run e self d)))).
            rec_id j = next_id d \<and> job_date j = self_job_date self \<and> status j = completed \<and>
            leads_processed j = ?n \<and> end_time j = Some (complete_now e)"
    by (rule rev_bexI) (simp add: finalize_def row_def)
  have second: "fst (run e self d)" by (simp add: run_eq fin)
  have first: "score_leads config ls (0, []) =
           (length (filter (scored config) ls),
            map (\<lambda>l. (email l, projr (calculate_lead_score (lead_dict l) config)))
                (filter (scored config) ls))"
    by (simp add: score_leads_acc)
  from first second third show ?thesis by blast
qed

lemmas run_eval_defs = run_def score_and_finalize_def update_lead_scores_def
  cleanup_old_jobs_def complete_job_def create_job_record_def check_job_lock_def
  check_job_lock_try_def connect_db_def get_scoring_config_def select_config_def
  final_status_def finalize_def commit_def rollback_def close_def running_on_def
  stale_def reclaim_def Let_def

lemmas example_defs = quiet_env_def today_job_def empty_db_def good_row_def
  null_company_row_def lead_dict_def column_def default_config_def

text \<open>Five leads, the third of which has a NULL company: leads 1, 2, 4 and 5 are scored
  and the record is completed with \<^verbatim>\<open>leads_processed = 4\<close>.\<close>

theorem per_lead_faults_are_isolated_witness:
  "no_store_fault quiet_env \<and>
   fst (check_job_lock None (lock_now quiet_env) today_job five_leads_db) \<and>
   \<not> self_job_date today_job < current_date quiet_env - 30 \<and>
   next_id five_leads_db \<noteq> 0 \<and>
   length (filter (scored (get_scoring_config (parse_float quiet_env) False five_leads_db))
     (raw_leads five_leads_db)) = 4 \<and>
   fst (run quiet_env today_job five_leads_db) \<and>
   committed (snd (snd (run quiet_env today_job five_leads_db)))
     = [\<lparr>rec_id = 1, job_date = 5, status = completed, leads_processed = 4,
         start_time = 20001, end_time = Some 20002\<rparr>]"
proof -
  have h1: "no_store_fault quiet_env"
    by (simp add: no_store_fault_def quiet_env_def connect_db_def)
  have h2: "fst (check_job_lock None (lock_now quiet_env) today_job five_leads_db)"
    by (simp add: check_job_lock_def check_job_lock_try_def Let_def running_on_def
        five_leads_db_def empty_db_def)
  have h3: "\<not> self_job_date today_job < current_date quiet_env - 30"
    by (simp add: today_job_def quiet_env_def)
  have h4: "next_id five_leads_db \<noteq> 0"
    by (simp add: five_leads_db_def empty_db_def)
  have n: "length (filter (scored (get_scoring_config (parse_float quiet_env) False five_leads_db))
     (raw_leads five_leads_db)) = 4"
    by (simp add: scored_iff five_leads_db_def good_row_def null_company_row_def)
  have c: "committed (snd (snd (run quiet_env today_job five_leads_db)))
     = [\<lparr>rec_id = 1, job_date = 5, status = completed, leads_processed = 4,
         start_time = 20001, end_time = Some 20002\<rparr>]"
    by (simp add: run_eval_defs example_defs five_leads_db_def score_defs)
  from per_lead_faults_are_isolated[OF h1 h2 h3 h4] h1 h2 h3 h4 n c
  show ?thesis by simp
qed



end
